theory Spec2Isabelle
  imports Main
begin

section \<open>JavaScript values used by the scheduler\<close>

text \<open>
  A JavaScript number holding a time in epoch milliseconds is either a finite integer or
  \<open>NaN\<close> (the value of an invalid \<open>Date\<close> or \<open>Moment\<close>). A string field of a native
  resource may be missing (\<open>undefined\<close>), which is \<open>None\<close>.
\<close>

datatype jsnum = NaN | Number int

definition truthy_num :: "jsnum \<Rightarrow> bool" where
  \<comment> \<open>what \<open>x || y\<close> tests on a number: \<open>0\<close> and \<open>NaN\<close> are falsy\<close>
  "truthy_num v = (case v of NaN \<Rightarrow> False | Number n \<Rightarrow> n \<noteq> 0)"

definition truthy_str :: "string option \<Rightarrow> bool" where
  \<comment> \<open>what \<open>x || y\<close> tests on a string: \<open>undefined\<close> and the empty string are falsy\<close>
  "truthy_str v = (case v of None \<Rightarrow> False | Some s \<Rightarrow> s \<noteq> [])"

definition or_str :: "string option \<Rightarrow> string option \<Rightarrow> string option" where
  "or_str a b = (if truthy_str a then a else b)"

definition or_num :: "jsnum option \<Rightarrow> jsnum \<Rightarrow> jsnum" where
  \<comment> \<open>\<open>a?.valueOf() || b\<close> where \<open>a\<close> may be \<open>undefined\<close>\<close>
  "or_num a b = (case a of None \<Rightarrow> b | Some v \<Rightarrow> if truthy_num v then v else b)"

definition js_lt :: "jsnum \<Rightarrow> jsnum \<Rightarrow> bool" where
  \<comment> \<open>\<open>a < b\<close>: false as soon as one side is \<open>NaN\<close>\<close>
  "js_lt a b = (case (a, b) of (Number x, Number y) \<Rightarrow> x < y | _ \<Rightarrow> False)"

definition newDateValueOf :: "(string \<Rightarrow> jsnum) \<Rightarrow> string option \<Rightarrow> jsnum" where
  \<comment> \<open>\<open>new Date(v).valueOf()\<close>; the parser of date strings belongs to the JavaScript
      runtime and is a parameter; \<open>new Date(undefined)\<close> is an invalid date\<close>
  "newDateValueOf parse v = (case v of None \<Rightarrow> NaN | Some s \<Rightarrow> parse s)"

section \<open>Data model\<close>

text \<open>
  \<open>TPlatform\<close> as listed by the platform logo component. Only \<open>Youtube\<close> and
  \<open>Facebook\<close> have scheduler settings.
\<close>

datatype TPlatform = Twitch | Youtube | Facebook | Tiktok | Trovo

datatype event_status = Scheduled | Completed

record fb_destination =
  destinationType :: string
  destinationId :: string

text \<open>\<open>IStreamEvent\<close>; the field \<open>id\<close> is \<open>event_id\<close> here.\<close>

record IStreamEvent =
  platform :: TPlatform
  event_id :: string
  date :: jsnum
  title :: string
  status :: event_status
  facebook :: "fb_destination option"

text \<open>The fields of a native YouTube broadcast that the scheduler reads.\<close>

record yt_status =
  lifeCycleStatus :: string

record yt_snippet =
  scheduledStartTime :: "string option"
  actualStartTime :: "string option"
  snippet_title :: string

record IYoutubeLiveBroadcast =
  broadcast_id :: string
  broadcast_status :: yt_status
  snippet :: yt_snippet

text \<open>
  The fields of a native Facebook live video that the scheduler reads;
  \<open>IFacebookLiveVideoExtended\<close> adds the destination.
\<close>

record IFacebookLiveVideo =
  video_id :: string
  video_title :: string
  planned_start_time :: "string option"
  broadcast_start_time :: "string option"

record IFacebookLiveVideoExtended = IFacebookLiveVideo +
  video_destinationType :: string
  video_destinationId :: string

definition withDestination ::
  "IFacebookLiveVideo \<Rightarrow> string \<Rightarrow> string \<Rightarrow> IFacebookLiveVideoExtended" where
  \<comment> \<open>the object spread \<open>{ ...video, destinationType, destinationId }\<close>\<close>
  "withDestination v dt di =
     \<lparr>video_id = video_id v, video_title = video_title v,
      planned_start_time = planned_start_time v,
      broadcast_start_time = broadcast_start_time v,
      video_destinationType = dt, video_destinationId = di\<rparr>"

section \<open>Event normalizers\<close>

definition convertYTBroadcastToEvent ::
  "(string \<Rightarrow> jsnum) \<Rightarrow> IYoutubeLiveBroadcast \<Rightarrow> IStreamEvent" where
  "convertYTBroadcastToEvent parse ytBroadcast =
     \<lparr>platform = Youtube,
      event_id = broadcast_id ytBroadcast,
      date = newDateValueOf parse
               (or_str (scheduledStartTime (snippet ytBroadcast))
                       (actualStartTime (snippet ytBroadcast))),
      title = snippet_title (snippet ytBroadcast),
      status = (if lifeCycleStatus (broadcast_status ytBroadcast) = ''created''
                   \<or> lifeCycleStatus (broadcast_status ytBroadcast) = ''ready''
                then Scheduled else Completed),
      facebook = None\<rparr>"

definition convertFBLiveVideoToEvent ::
  "(string \<Rightarrow> jsnum) \<Rightarrow> IFacebookLiveVideoExtended \<Rightarrow> IStreamEvent" where
  "convertFBLiveVideoToEvent parse fbLiveVideo =
     \<lparr>platform = Facebook,
      event_id = video_id fbLiveVideo,
      date = newDateValueOf parse
               (or_str (planned_start_time fbLiveVideo) (broadcast_start_time fbLiveVideo)),
      title = video_title fbLiveVideo,
      status = Scheduled,
      facebook = Some \<lparr>destinationType = video_destinationType fbLiveVideo,
                       destinationId = video_destinationId fbLiveVideo\<rparr>\<rparr>"

section \<open>Draft settings, scheduler state and the outside world\<close>

text \<open>
  Of the start-stream options of each platform the scheduler itself reads or writes only
  the fields below; the other fields are filled by the forms and read by the platform
  services.
\<close>

record IYoutubeStartStreamOptions =
  broadcastId :: "string option"
  yt_scheduledStartTime :: "jsnum option"

record IFacebookStartStreamOptions =
  liveVideoId :: "string option"
  plannedStartTime :: "jsnum option"
  fb_destinationType :: string

record ISchedulerPlatformSettings =
  ps_youtube :: "IYoutubeStartStreamOptions option"
  ps_facebook :: "IFacebookStartStreamOptions option"

datatype platform_options =
  YtOptions IYoutubeStartStreamOptions | FbOptions IFacebookStartStreamOptions

definition settingsFor ::
  "ISchedulerPlatformSettings \<Rightarrow> TPlatform \<Rightarrow> platform_options option" where
  \<comment> \<open>\<open>platformSettings[platform]\<close>: only the keys youtube and facebook are ever set\<close>
  "settingsFor ps p =
     (case p of
        Youtube \<Rightarrow> map_option YtOptions (ps_youtube ps)
      | Facebook \<Rightarrow> map_option FbOptions (ps_facebook ps)
      | _ \<Rightarrow> None)"

record scheduler_state =
  isLoading :: bool
  isEventsLoaded :: bool
  events :: "IStreamEvent list"
  isModalVisible :: bool
  selectedEventId :: string
  time :: jsnum
  selectedPlatform :: TPlatform
  platformSettings :: ISchedulerPlatformSettings

datatype IStreamError = StreamError string

text \<open>
  The state of a promise when the command that made the call reads it: a remote call may
  never settle.
\<close>

datatype 'a promise = Pending | Rejected IStreamError | Fulfilled 'a

text \<open>
  Everything the module gets from outside: the platform services, the streaming view, the
  form, the clock and the date parser of the runtime.
\<close>

record env =
  ytServiceSettings :: IYoutubeStartStreamOptions
  fbServiceSettings :: IFacebookStartStreamOptions
  linkedPlatforms :: "TPlatform list"
  supportsSchedule :: "TPlatform \<Rightarrow> bool"
  dateParse :: "string \<Rightarrow> jsnum"
  startOfToday :: int
  formValid :: bool
  ytPrepopulateInfo :: "unit promise"
  fetchBroadcasts :: "IYoutubeLiveBroadcast list promise"
  fbPrepopulateInfo :: "unit promise"
  fetchAllVideos :: "IFacebookLiveVideoExtended list promise"
  updateBroadcast :: "string \<Rightarrow> IYoutubeStartStreamOptions \<Rightarrow> IYoutubeLiveBroadcast promise"
  updateLiveVideo :: "string \<Rightarrow> IFacebookStartStreamOptions \<Rightarrow> IFacebookLiveVideo promise"
  scheduleStreamYT :: "jsnum \<Rightarrow> IYoutubeStartStreamOptions \<Rightarrow> IYoutubeLiveBroadcast promise"
  scheduleStreamFB :: "jsnum \<Rightarrow> IFacebookStartStreamOptions \<Rightarrow> IFacebookLiveVideo promise"
  getDestinationId :: "IFacebookStartStreamOptions \<Rightarrow> string"
  removeBroadcast :: "string \<Rightarrow> unit promise"
  removeLiveVideo :: "string \<Rightarrow> fb_destination \<Rightarrow> unit promise"

text \<open>
  What a command leaves behind: the state, the error toasts it showed (\<open>message.error\<close>, in
  order), and whether an exception or a promise rejection escaped every handler.
\<close>

record cmd_result =
  st :: scheduler_state
  toasts :: "string list"
  unhandled :: bool

definition ok :: "scheduler_state \<Rightarrow> cmd_result" where
  "ok s = \<lparr>st = s, toasts = [], unhandled = False\<rparr>"

definition threw :: "scheduler_state \<Rightarrow> cmd_result" where
  "threw s = \<lparr>st = s, toasts = [], unhandled = True\<rparr>"

definition msgPastDate :: string where
  "msgPastDate = ''You can not schedule to a past date''"

definition msgInvalidForm :: string where
  "msgInvalidForm = ''Invalid settings. Please check the form''"

definition msgFacebookWindow :: string where
  "msgFacebookWindow =
     ''Please schedule no further than 7 days in advance and no sooner than 10 minutes in advance.''"

definition msgCannotSchedule :: string where
  "msgCannotSchedule = ''Can not schedule the stream for the given date/time''"

section \<open>Getters and mutations of the module\<close>

definition defaultPlatformSettings :: "env \<Rightarrow> ISchedulerPlatformSettings" where
  "defaultPlatformSettings e =
     \<lparr>ps_youtube = Some ((ytServiceSettings e)\<lparr>broadcastId := Some []\<rparr>),
      ps_facebook = Some ((fbServiceSettings e)\<lparr>liveVideoId := Some []\<rparr>)\<rparr>"

definition platforms :: "env \<Rightarrow> TPlatform list" where
  "platforms e = filter (supportsSchedule e) (linkedPlatforms e)"

definition selectedEvent :: "scheduler_state \<Rightarrow> IStreamEvent option" where
  "selectedEvent s = find (\<lambda>ev. selectedEventId s = event_id ev) (events s)"

definition isUpdateMode :: "scheduler_state \<Rightarrow> bool" where
  "isUpdateMode s = (selectedEventId s \<noteq> [])"

definition closeModal :: "env \<Rightarrow> scheduler_state \<Rightarrow> scheduler_state" where
  "closeModal e s =
     s\<lparr>selectedEventId := [], isModalVisible := False,
       platformSettings := defaultPlatformSettings e, isLoading := False\<rparr>"

definition setTime :: "jsnum \<Rightarrow> scheduler_state \<Rightarrow> cmd_result" where
  \<comment> \<open>\<open>getDefined\<close> throws after \<open>time\<close> is already written\<close>
  "setTime t s =
     (let s1 = s\<lparr>time := t\<rparr>; ps = platformSettings s1 in
      if selectedPlatform s1 = Facebook then
        (case ps_facebook ps of
           None \<Rightarrow> threw s1
         | Some fb \<Rightarrow>
             ok (s1\<lparr>platformSettings := ps\<lparr>ps_facebook := Some (fb\<lparr>plannedStartTime := Some t\<rparr>)\<rparr>\<rparr>))
      else
        (case ps_youtube ps of
           None \<Rightarrow> threw s1
         | Some yt \<Rightarrow>
             ok (s1\<lparr>platformSettings := ps\<lparr>ps_youtube := Some (yt\<lparr>yt_scheduledStartTime := Some t\<rparr>)\<rparr>\<rparr>)))"

definition reset :: "env \<Rightarrow> scheduler_state \<Rightarrow> scheduler_state" where
  "reset e s = s\<lparr>events := [], platformSettings := defaultPlatformSettings e\<rparr>"

definition setEvents :: "IStreamEvent list \<Rightarrow> scheduler_state \<Rightarrow> scheduler_state" where
  "setEvents evs s = s\<lparr>isEventsLoaded := True, events := evs\<rparr>"

definition addEvent :: "IStreamEvent \<Rightarrow> scheduler_state \<Rightarrow> scheduler_state" where
  "addEvent ev s = s\<lparr>events := events s @ [ev]\<rparr>"

fun findIndex :: "('a \<Rightarrow> bool) \<Rightarrow> 'a list \<Rightarrow> int" where
  \<comment> \<open>\<open>Array.prototype.findIndex\<close>: the first index that satisfies, -1 when there is none\<close>
  "findIndex P [] = - 1"
| "findIndex P (x # xs) =
     (if P x then 0 else if findIndex P xs < 0 then - 1 else findIndex P xs + 1)"

definition splice1 :: "int \<Rightarrow> 'a \<Rightarrow> 'a list \<Rightarrow> 'a list" where
  \<comment> \<open>\<open>xs.splice(start, 1, item)\<close>: a negative start counts from the end of the array\<close>
  "splice1 start item xs =
     (let len = int (length xs);
          actualStart = (if start < 0 then max (len + start) 0 else min start len);
          deleteCount = min 1 (len - actualStart)
      in take (nat actualStart) xs @ [item] @ drop (nat (actualStart + deleteCount)) xs)"

definition setEvent :: "string \<Rightarrow> IStreamEvent \<Rightarrow> scheduler_state \<Rightarrow> scheduler_state" where
  "setEvent i ev s =
     s\<lparr>events := splice1 (findIndex (\<lambda>x. event_id x = i) (events s)) ev (events s)\<rparr>"

definition REMOVE_EVENT :: "string \<Rightarrow> scheduler_state \<Rightarrow> scheduler_state" where
  "REMOVE_EVENT i s = s\<lparr>events := filter (\<lambda>ev. event_id ev \<noteq> i) (events s)\<rparr>"

definition showLoader :: "scheduler_state \<Rightarrow> scheduler_state" where
  "showLoader s = s\<lparr>isLoading := True\<rparr>"

definition hideLoader :: "scheduler_state \<Rightarrow> scheduler_state" where
  "hideLoader s = s\<lparr>isLoading := False\<rparr>"

section \<open>Commands of the module\<close>

definition loadYTBEvents :: "env \<Rightarrow> IYoutubeLiveBroadcast list promise" where
  "loadYTBEvents e =
     (if Youtube \<notin> set (platforms e) then Fulfilled []
      else case ytPrepopulateInfo e of
             Pending \<Rightarrow> Pending
           | Rejected err \<Rightarrow> Rejected err
           | Fulfilled _ \<Rightarrow> fetchBroadcasts e)"

definition loadFbEvents :: "env \<Rightarrow> IFacebookLiveVideoExtended list promise" where
  "loadFbEvents e =
     (if Facebook \<notin> set (platforms e) then Fulfilled []
      else case fbPrepopulateInfo e of
             Pending \<Rightarrow> Pending
           | Rejected err \<Rightarrow> Rejected err
           | Fulfilled _ \<Rightarrow> fetchAllVideos e)"

definition loadEvents :: "env \<Rightarrow> scheduler_state \<Rightarrow> cmd_result" where
  \<comment> \<open>\<open>Promise.all\<close> rejects as soon as one of the two rejects and is otherwise pending
      until both are fulfilled; nothing catches the rejection\<close>
  "loadEvents e s =
     (let s1 = reset e s in
      case (loadFbEvents e, loadYTBEvents e) of
        (Rejected _, _) \<Rightarrow> threw s1
      | (_, Rejected _) \<Rightarrow> threw s1
      | (Fulfilled fbEvents, Fulfilled ytEvents) \<Rightarrow>
          ok (setEvents (map (convertYTBroadcastToEvent (dateParse e)) ytEvents
                         @ map (convertFBLiveVideoToEvent (dateParse e)) fbEvents) s1)
      | _ \<Rightarrow> ok s1)"

definition showNewEventModal ::
  "env \<Rightarrow> TPlatform \<Rightarrow> jsnum option \<Rightarrow> scheduler_state \<Rightarrow> cmd_result" where
  \<comment> \<open>\<open>selectedTime\<close> is the value of the optional \<open>Moment\<close>\<close>
  "showNewEventModal e p selectedTime s =
     (let today = Number (startOfToday e);
          t = or_num selectedTime (time s)
      in if js_lt t today then \<lparr>st = s, toasts = [msgPastDate], unhandled = False\<rparr>
         else setTime t (s\<lparr>selectedPlatform := p, isModalVisible := True\<rparr>))"

definition handleError :: "IStreamError \<Rightarrow> scheduler_state \<Rightarrow> cmd_result" where
  "handleError err s =
     \<lparr>st = hideLoader s,
      toasts = [if selectedPlatform s = Facebook then msgFacebookWindow else msgCannotSchedule],
      unhandled = False\<rparr>"

definition saveExistingStream :: "env \<Rightarrow> scheduler_state \<Rightarrow> cmd_result" where
  \<comment> \<open>the settings found under \<open>selectedPlatform\<close> are YouTube's exactly when the platform
      is youtube, so the test on the platform is the case on the settings\<close>
  "saveExistingStream e s =
     (case settingsFor (platformSettings s) (selectedPlatform s) of
        None \<Rightarrow> threw s
      | Some (YtOptions streamSettings) \<Rightarrow>
          (case updateBroadcast e (selectedEventId s) streamSettings of
             Pending \<Rightarrow> ok s
           | Rejected err \<Rightarrow> threw s
           | Fulfilled video \<Rightarrow>
               ok (closeModal e
                     (setEvent (broadcast_id video)
                        (convertYTBroadcastToEvent (dateParse e) video) s)))
      | Some (FbOptions streamSettings) \<Rightarrow>
          (case selectedEvent s of
             None \<Rightarrow> threw s
           | Some event \<Rightarrow>
               (case facebook event of
                  None \<Rightarrow> threw s
                | Some fbOptions \<Rightarrow>
                    (case updateLiveVideo e (selectedEventId s) streamSettings of
                       Pending \<Rightarrow> ok s
                     | Rejected err \<Rightarrow> handleError err s
                     | Fulfilled video \<Rightarrow>
                         ok (closeModal e
                               (setEvent (video_id video)
                                  (convertFBLiveVideoToEvent (dateParse e)
                                     (withDestination video (destinationType fbOptions)
                                        (destinationId fbOptions))) s))))))"

definition saveNewStream :: "env \<Rightarrow> scheduler_state \<Rightarrow> cmd_result" where
  "saveNewStream e s =
     (case settingsFor (platformSettings s) (selectedPlatform s) of
        None \<Rightarrow> threw s
      | Some (YtOptions streamSettings) \<Rightarrow>
          (case scheduleStreamYT e (time s) streamSettings of
             Pending \<Rightarrow> ok s
           | Rejected err \<Rightarrow> handleError err s
           | Fulfilled video \<Rightarrow>
               ok (closeModal e
                     (setEvent (broadcast_id video)
                        (convertYTBroadcastToEvent (dateParse e) video) s)))
      | Some (FbOptions fbSettings) \<Rightarrow>
          (case scheduleStreamFB e (time s) fbSettings of
             Pending \<Rightarrow> ok s
           | Rejected err \<Rightarrow> handleError err s
           | Fulfilled video \<Rightarrow>
               ok (closeModal e
                     (setEvent (video_id video)
                        (convertFBLiveVideoToEvent (dateParse e)
                           (withDestination video (fb_destinationType fbSettings)
                              (getDestinationId e fbSettings))) s))))"

definition submit :: "env \<Rightarrow> scheduler_state \<Rightarrow> cmd_result" where
  "submit e s =
     (if \<not> formValid e then \<lparr>st = s, toasts = [msgInvalidForm], unhandled = False\<rparr>
      else if isUpdateMode (showLoader s) then saveExistingStream e (showLoader s)
      else saveNewStream e (showLoader s))"

definition removeLocally :: "env \<Rightarrow> string \<Rightarrow> unit promise \<Rightarrow> scheduler_state \<Rightarrow> cmd_result" where
  \<comment> \<open>the last two statements of \<open>remove\<close>; the promise of the remote call is dropped, so
      its rejection is handled by nobody\<close>
  "removeLocally e i remote s =
     \<lparr>st = closeModal e (REMOVE_EVENT i s), toasts = [],
      unhandled = (case remote of Rejected _ \<Rightarrow> True | _ \<Rightarrow> False)\<rparr>"

definition remove_cmd :: "env \<Rightarrow> scheduler_state \<Rightarrow> cmd_result" where
  \<comment> \<open>\<open>remove()\<close>\<close>
  "remove_cmd e s =
     (let s1 = showLoader s in
      if selectedPlatform s = Youtube then
        removeLocally e (selectedEventId s) (removeBroadcast e (selectedEventId s)) s1
      else
        (case selectedEvent s1 of
           None \<Rightarrow> threw s1
         | Some event \<Rightarrow>
             (case facebook event of
                None \<Rightarrow> threw s1
              | Some fbOptions \<Rightarrow>
                  removeLocally e (selectedEventId s)
                    (removeLiveVideo e (selectedEventId s) fbOptions) s1)))"

section \<open>The day cell of the calendar\<close>

definition isBetween :: "jsnum \<Rightarrow> int \<Rightarrow> int \<Rightarrow> bool" where
  \<comment> \<open>\<open>moment(d).isBetween(a, b)\<close> with the default inclusivity \<open>()\<close>: both bounds are
      excluded; an invalid moment is between nothing\<close>
  "isBetween d a b = (case d of NaN \<Rightarrow> False | Number t \<Rightarrow> a < t \<and> t < b)"

definition js_sub :: "jsnum \<Rightarrow> jsnum \<Rightarrow> jsnum" where
  "js_sub a b = (case (a, b) of (Number x, Number y) \<Rightarrow> Number (x - y) | _ \<Rightarrow> NaN)"

definition byDate :: "IStreamEvent \<Rightarrow> IStreamEvent \<Rightarrow> bool" where
  \<comment> \<open>the comparator \<open>ev1.date - ev2.date\<close> does not put \<open>ev1\<close> after \<open>ev2\<close>; a \<open>NaN\<close>
      result counts as 0\<close>
  "byDate ev1 ev2 = (case js_sub (date ev1) (date ev2) of NaN \<Rightarrow> True | Number v \<Rightarrow> v \<le> 0)"

fun insertSorted :: "('a \<Rightarrow> 'a \<Rightarrow> bool) \<Rightarrow> 'a \<Rightarrow> 'a list \<Rightarrow> 'a list" where
  "insertSorted le x [] = [x]"
| "insertSorted le x (y # ys) = (if le x y then x # y # ys else y # insertSorted le x ys)"

definition sortBy :: "('a \<Rightarrow> 'a \<Rightarrow> bool) \<Rightarrow> 'a list \<Rightarrow> 'a list" where
  \<comment> \<open>\<open>Array.prototype.sort\<close> is stable; a stable insertion sort stands for it\<close>
  "sortBy le xs = foldr (insertSorted le) xs []"

definition dateCellRender ::
  "(int \<Rightarrow> int) \<Rightarrow> (int \<Rightarrow> int) \<Rightarrow> IStreamEvent list \<Rightarrow> int \<Rightarrow> IStreamEvent list" where
  \<comment> \<open>the events listed in the cell of \<open>day\<close>; \<open>startOfDay\<close> and \<open>endOfDay\<close> are moment's
      \<open>startOf('day')\<close> and \<open>endOf('day')\<close> in the local time zone\<close>
  "dateCellRender startOfDay endOfDay evs day =
     sortBy byDate
       (filter (\<lambda>ev. isBetween (date ev) (startOfDay day) (endOfDay day)) evs)"

text \<open>The two functions of moment for a machine whose local time is UTC.\<close>

definition startOfDayUTC :: "int \<Rightarrow> int" where
  "startOfDayUTC t = t - t mod 86400000"

definition endOfDayUTC :: "int \<Rightarrow> int" where
  "endOfDayUTC t = startOfDayUTC t + 86399999"

section \<open>Concrete inputs\<close>

text \<open>
  A parser that knows the one timestamp of the concrete scenarios, for evaluating the
  normalizers: \<open>2024-01-01T10:00:00Z\<close> is 1704103200000 ms after the epoch.
\<close>

definition parseLaunch :: "string \<Rightarrow> jsnum" where
  "parseLaunch s = (if s = ''2024-01-01T10:00:00Z'' then Number 1704103200000 else NaN)"

definition ytDefaults :: IYoutubeStartStreamOptions where
  "ytDefaults = \<lparr>broadcastId = None, yt_scheduledStartTime = None\<rparr>"

definition fbDefaults :: IFacebookStartStreamOptions where
  "fbDefaults = \<lparr>liveVideoId = None, plannedStartTime = None, fb_destinationType = ''page''\<rparr>"

definition sampleEnv :: env where
  "sampleEnv =
     \<lparr>ytServiceSettings = ytDefaults, fbServiceSettings = fbDefaults,
      linkedPlatforms = [Twitch, Youtube, Facebook],
      supportsSchedule = (\<lambda>p. p = Youtube \<or> p = Facebook),
      dateParse = parseLaunch,
      startOfToday = 1767225600000,
      formValid = True,
      ytPrepopulateInfo = Fulfilled (), fetchBroadcasts = Fulfilled [],
      fbPrepopulateInfo = Fulfilled (), fetchAllVideos = Fulfilled [],
      updateBroadcast = (\<lambda>i opts. Pending), updateLiveVideo = (\<lambda>i opts. Pending),
      scheduleStreamYT = (\<lambda>t opts. Pending), scheduleStreamFB = (\<lambda>t opts. Pending),
      getDestinationId = (\<lambda>opts. ''p7''),
      removeBroadcast = (\<lambda>i. Pending), removeLiveVideo = (\<lambda>i d. Pending)\<rparr>"

definition sampleState :: scheduler_state where
  "sampleState =
     \<lparr>isLoading = False, isEventsLoaded = True, events = [], isModalVisible = True,
      selectedEventId = [], time = Number 1767229200000, selectedPlatform = Youtube,
      platformSettings = defaultPlatformSettings sampleEnv\<rparr>"

definition launchBroadcast :: "string \<Rightarrow> IYoutubeLiveBroadcast" where
  "launchBroadcast i =
     \<lparr>broadcast_id = i, broadcast_status = \<lparr>lifeCycleStatus = ''ready''\<rparr>,
      snippet = \<lparr>scheduledStartTime = Some ''2024-01-01T10:00:00Z'',
                 actualStartTime = None, snippet_title = ''Launch''\<rparr>\<rparr>"

definition launchVideo :: "string \<Rightarrow> IFacebookLiveVideo" where
  "launchVideo i =
     \<lparr>video_id = i, video_title = ''Launch'',
      planned_start_time = Some ''2024-01-01T10:00:00Z'', broadcast_start_time = None\<rparr>"

definition ytEvent :: "string \<Rightarrow> IStreamEvent" where
  "ytEvent i =
     \<lparr>platform = Youtube, event_id = i, date = Number 1704103200000,
      title = ''Launch'', status = Scheduled, facebook = None\<rparr>"

definition fbEvent :: "string \<Rightarrow> IStreamEvent" where
  "fbEvent i =
     \<lparr>platform = Facebook, event_id = i, date = Number 1704103200000,
      title = ''Launch'', status = Scheduled,
      facebook = Some \<lparr>destinationType = ''page'', destinationId = ''p7''\<rparr>\<rparr>"

definition createEnv :: env where
  "createEnv = sampleEnv\<lparr>scheduleStreamYT := \<lambda>t opts. Fulfilled (launchBroadcast ''new1'')\<rparr>"

definition createState :: scheduler_state where
  "createState = sampleState\<lparr>events := [ytEvent ''old1'']\<rparr>"

definition rejectEnv :: env where
  "rejectEnv = sampleEnv\<lparr>updateBroadcast := \<lambda>i opts. Rejected (StreamError ''quotaExceeded'')\<rparr>"

definition editState :: scheduler_state where
  "editState = sampleState\<lparr>events := [ytEvent ''yt1''], selectedEventId := ''yt1''\<rparr>"

definition collideState :: scheduler_state where
  "collideState = sampleState\<lparr>events := [fbEvent ''x'', ytEvent ''x''], selectedEventId := ''x''\<rparr>"

definition fiveEnv :: env where
  "fiveEnv = sampleEnv
     \<lparr>fetchBroadcasts := Fulfilled [launchBroadcast ''a'', launchBroadcast ''b''],
      fetchAllVideos := Fulfilled [withDestination (launchVideo ''c'') ''page'' ''p7'',
                                   withDestination (launchVideo ''d'') ''page'' ''p7'',
                                   withDestination (launchVideo ''e'') ''page'' ''p7'']\<rparr>"

definition mismatchState :: scheduler_state where
  "mismatchState = sampleState\<lparr>events := [ytEvent ''x''], selectedEventId := ''x'',
      selectedPlatform := Facebook\<rparr>"

definition removeState :: scheduler_state where
  "removeState = sampleState\<lparr>events := [fbEvent ''x'', ytEvent ''y''], selectedEventId := ''x'',
      selectedPlatform := Facebook\<rparr>"

definition midnightEvent :: IStreamEvent where
  "midnightEvent = (ytEvent ''midnight'')\<lparr>date := Number 1704067200000\<rparr>"

definition lastMsEvent :: IStreamEvent where
  "lastMsEvent = (fbEvent ''lastms'')\<lparr>date := Number 1704153599999\<rparr>"

section \<open>Facts about the array operations\<close>

lemmas sample_defs =
  sampleEnv_def sampleState_def ytDefaults_def fbDefaults_def launchBroadcast_def
  launchVideo_def ytEvent_def fbEvent_def parseLaunch_def

lemma findIndex_range: "- 1 \<le> findIndex P xs \<and> findIndex P xs < int (length xs)"
  by (induction xs) auto

lemma findIndex_first:
  "n < length xs \<Longrightarrow> P (xs ! n) \<Longrightarrow> (\<forall>m < n. \<not> P (xs ! m)) \<Longrightarrow> findIndex P xs = int n"
proof (induction xs arbitrary: n)
  case Nil
  then show ?case by simp
next
  case (Cons x xs)
  show ?case
  proof (cases n)
    case 0
    with Cons.prems show ?thesis by simp
  next
    case (Suc k)
    with Cons.prems have "\<not> P x" by auto
    moreover have "findIndex P xs = int k"
      using Cons.prems Suc by (intro Cons.IH) auto
    ultimately show ?thesis using Suc by simp
  qed
qed

lemma findIndex_absent: "(\<forall>x \<in> set xs. \<not> P x) \<Longrightarrow> findIndex P xs = - 1"
  by (induction xs) auto

lemma splice1_in_range:
  "0 \<le> i \<Longrightarrow> i < int (length xs) \<Longrightarrow> splice1 i ev xs = xs[nat i := ev]"
  by (simp add: splice1_def Let_def upd_conv_take_nth_drop min_def nat_add_distrib)

lemma splice1_minus_one:
  "splice1 (- 1) ev xs = (if xs = [] then [ev] else butlast xs @ [ev])"
  by (cases xs rule: rev_cases) (simp_all add: splice1_def Let_def)

lemma length_splice1_found:
  assumes "- 1 \<le> i" "i < int (length xs)"
  shows "length (splice1 i ev xs) = max 1 (length xs)"
proof (cases "i = - 1")
  case True
  then show ?thesis by (cases xs rule: rev_cases) (simp_all add: splice1_minus_one)
next
  case False
  with assms have "0 \<le> i" by simp
  with assms show ?thesis by (auto simp: splice1_in_range)
qed

lemma setEvent_present:
  assumes "n < length (events s)" "event_id (events s ! n) = i"
    "\<forall>m < n. event_id (events s ! m) \<noteq> i"
  shows "events (setEvent i ev s) = (events s)[n := ev]"
proof -
  have "findIndex (\<lambda>x. event_id x = i) (events s) = int n"
    using assms by (intro findIndex_first) auto
  then show ?thesis using assms(1) by (simp add: setEvent_def splice1_in_range)
qed

lemma setEvent_absent:
  assumes "\<forall>x \<in> set (events s). event_id x \<noteq> i"
  shows "events (setEvent i ev s) = (if events s = [] then [ev] else butlast (events s) @ [ev])"
  using findIndex_absent [of "events s" "\<lambda>x. event_id x = i"] assms
  by (simp add: setEvent_def splice1_minus_one)

lemma length_setEvent: "length (events (setEvent i ev s)) = max 1 (length (events s))"
  using findIndex_range [of "\<lambda>x. event_id x = i" "events s"]
  by (simp add: setEvent_def length_splice1_found)

lemma events_closeModal [simp]: "events (closeModal e s) = events s"
  by (simp add: closeModal_def)

lemma events_showLoader [simp]: "events (showLoader s) = events s"
  by (simp add: showLoader_def)

lemma closeModal_remote [simp]:
  "closeModal (e\<lparr>removeBroadcast := rb, removeLiveVideo := rl\<rparr>) s = closeModal e s"
  by (simp add: closeModal_def defaultPlatformSettings_def)

lemmas cmd_defs =
  submit_def saveNewStream_def saveExistingStream_def handleError_def ok_def threw_def
  closeModal_def setEvent_def showLoader_def hideLoader_def isUpdateMode_def
  settingsFor_def defaultPlatformSettings_def selectedEvent_def
  convertYTBroadcastToEvent_def convertFBLiveVideoToEvent_def withDestination_def
  newDateValueOf_def or_str_def truthy_str_def splice1_def

section \<open>Normalizer properties\<close>

text \<open>
  Claim C6. The YouTube normalizer returns an event of platform youtube with the id and
  title of the native broadcast; its status is scheduled exactly when the lifecycle status
  is \<open>created\<close> or \<open>ready\<close> and completed otherwise; its date is the epoch value of the
  scheduled start time when that field is present (defined and not empty), and of the
  actual start time otherwise.
\<close>

theorem convertYTBroadcastToEvent_spec:
  "platform (convertYTBroadcastToEvent parse b) = Youtube
   \<and> event_id (convertYTBroadcastToEvent parse b) = broadcast_id b
   \<and> title (convertYTBroadcastToEvent parse b) = snippet_title (snippet b)
   \<and> (status (convertYTBroadcastToEvent parse b) = Scheduled
        \<longleftrightarrow> lifeCycleStatus (broadcast_status b) \<in> {''created'', ''ready''})
   \<and> (status (convertYTBroadcastToEvent parse b) = Completed
        \<longleftrightarrow> lifeCycleStatus (broadcast_status b) \<notin> {''created'', ''ready''})
   \<and> date (convertYTBroadcastToEvent parse b) =
       (if truthy_str (scheduledStartTime (snippet b))
        then newDateValueOf parse (scheduledStartTime (snippet b))
        else newDateValueOf parse (actualStartTime (snippet b)))"
  by (simp add: convertYTBroadcastToEvent_def or_str_def)

theorem convertYTBroadcastToEvent_spec_witness:
  "convertYTBroadcastToEvent parseLaunch
     \<lparr>broadcast_id = ''yt1'', broadcast_status = \<lparr>lifeCycleStatus = ''ready''\<rparr>,
      snippet = \<lparr>scheduledStartTime = Some ''2024-01-01T10:00:00Z'',
                 actualStartTime = None, snippet_title = ''Launch''\<rparr>\<rparr>
   = \<lparr>platform = Youtube, event_id = ''yt1'', date = Number 1704103200000,
      title = ''Launch'', status = Scheduled, facebook = None\<rparr>
   \<and> date (convertYTBroadcastToEvent parseLaunch
     \<lparr>broadcast_id = ''yt2'', broadcast_status = \<lparr>lifeCycleStatus = ''complete''\<rparr>,
      snippet = \<lparr>scheduledStartTime = None,
                 actualStartTime = Some ''2024-01-01T10:00:00Z'',
                 snippet_title = ''Replay''\<rparr>\<rparr>) = Number 1704103200000
   \<and> status (convertYTBroadcastToEvent parseLaunch
     \<lparr>broadcast_id = ''yt2'', broadcast_status = \<lparr>lifeCycleStatus = ''complete''\<rparr>,
      snippet = \<lparr>scheduledStartTime = None,
                 actualStartTime = Some ''2024-01-01T10:00:00Z'',
                 snippet_title = ''Replay''\<rparr>\<rparr>) = Completed"
  using convertYTBroadcastToEvent_spec [of parseLaunch
     "\<lparr>broadcast_id = ''yt1'', broadcast_status = \<lparr>lifeCycleStatus = ''ready''\<rparr>,
      snippet = \<lparr>scheduledStartTime = Some ''2024-01-01T10:00:00Z'',
                 actualStartTime = None, snippet_title = ''Launch''\<rparr>\<rparr>"]
    convertYTBroadcastToEvent_spec [of parseLaunch
     "\<lparr>broadcast_id = ''yt2'', broadcast_status = \<lparr>lifeCycleStatus = ''complete''\<rparr>,
      snippet = \<lparr>scheduledStartTime = None,
                 actualStartTime = Some ''2024-01-01T10:00:00Z'',
                 snippet_title = ''Replay''\<rparr>\<rparr>"]
  by (simp add: convertYTBroadcastToEvent_def or_str_def truthy_str_def
        newDateValueOf_def parseLaunch_def)

text \<open>
  Claim C7. The Facebook normalizer returns an event of platform facebook whose status is
  always scheduled, whose date is the epoch value of the planned start time when that
  field is present (defined and not empty) and of the broadcast start time otherwise, and
  whose \<open>facebook\<close> sub-record is always there and holds the destination type and the
  destination id of the native video.
\<close>

theorem convertFBLiveVideoToEvent_spec:
  "platform (convertFBLiveVideoToEvent parse v) = Facebook
   \<and> status (convertFBLiveVideoToEvent parse v) = Scheduled
   \<and> date (convertFBLiveVideoToEvent parse v) =
       (if truthy_str (planned_start_time v)
        then newDateValueOf parse (planned_start_time v)
        else newDateValueOf parse (broadcast_start_time v))
   \<and> facebook (convertFBLiveVideoToEvent parse v) =
       Some \<lparr>destinationType = video_destinationType v,
             destinationId = video_destinationId v\<rparr>"
  by (simp add: convertFBLiveVideoToEvent_def or_str_def)

theorem convertFBLiveVideoToEvent_spec_witness:
  "convertFBLiveVideoToEvent parseLaunch
     \<lparr>video_id = ''fb1'', video_title = ''Live'',
      planned_start_time = Some ''2024-01-01T10:00:00Z'', broadcast_start_time = None,
      video_destinationType = ''page'', video_destinationId = ''p7''\<rparr>
   = \<lparr>platform = Facebook, event_id = ''fb1'', date = Number 1704103200000,
      title = ''Live'', status = Scheduled,
      facebook = Some \<lparr>destinationType = ''page'', destinationId = ''p7''\<rparr>\<rparr>
   \<and> date (convertFBLiveVideoToEvent parseLaunch
     \<lparr>video_id = ''fb2'', video_title = ''Live'',
      planned_start_time = Some [], broadcast_start_time = Some ''2024-01-01T10:00:00Z'',
      video_destinationType = ''me'', video_destinationId = ''m1''\<rparr>)
     = Number 1704103200000"
  using convertFBLiveVideoToEvent_spec [of parseLaunch
     "\<lparr>video_id = ''fb1'', video_title = ''Live'',
      planned_start_time = Some ''2024-01-01T10:00:00Z'', broadcast_start_time = None,
      video_destinationType = ''page'', video_destinationId = ''p7''\<rparr>"]
    convertFBLiveVideoToEvent_spec [of parseLaunch
     "\<lparr>video_id = ''fb2'', video_title = ''Live'',
      planned_start_time = Some [], broadcast_start_time = Some ''2024-01-01T10:00:00Z'',
      video_destinationType = ''me'', video_destinationId = ''m1''\<rparr>"]
  by (simp add: convertFBLiveVideoToEvent_def or_str_def truthy_str_def
        newDateValueOf_def parseLaunch_def)

section \<open>What submit does to the list of events\<close>

lemma submit_update_youtube:
  assumes "formValid e" "selectedEventId s \<noteq> []" "selectedPlatform s = Youtube"
    "ps_youtube (platformSettings s) = Some opts"
    "updateBroadcast e (selectedEventId s) opts = Fulfilled video"
  shows "submit e s =
     ok (closeModal e (setEvent (broadcast_id video)
           (convertYTBroadcastToEvent (dateParse e) video) (showLoader s)))"
  using assms
  by (simp add: submit_def isUpdateMode_def showLoader_def saveExistingStream_def settingsFor_def)

lemma submit_update_facebook:
  assumes "formValid e" "selectedEventId s \<noteq> []" "selectedPlatform s = Facebook"
    "ps_facebook (platformSettings s) = Some opts"
    "selectedEvent s = Some event" "facebook event = Some fbOptions"
    "updateLiveVideo e (selectedEventId s) opts = Fulfilled video"
  shows "submit e s =
     ok (closeModal e (setEvent (video_id video)
           (convertFBLiveVideoToEvent (dateParse e)
              (withDestination video (destinationType fbOptions) (destinationId fbOptions)))
           (showLoader s)))"
  using assms
  by (simp add: submit_def isUpdateMode_def showLoader_def saveExistingStream_def settingsFor_def
      selectedEvent_def)

lemma submit_create_youtube:
  assumes "formValid e" "selectedEventId s = []" "selectedPlatform s = Youtube"
    "ps_youtube (platformSettings s) = Some opts"
    "scheduleStreamYT e (time s) opts = Fulfilled video"
  shows "submit e s =
     ok (closeModal e (setEvent (broadcast_id video)
           (convertYTBroadcastToEvent (dateParse e) video) (showLoader s)))"
  using assms
  by (simp add: submit_def isUpdateMode_def showLoader_def saveNewStream_def settingsFor_def)

lemma submit_create_facebook:
  assumes "formValid e" "selectedEventId s = []" "selectedPlatform s = Facebook"
    "ps_facebook (platformSettings s) = Some opts"
    "scheduleStreamFB e (time s) opts = Fulfilled video"
  shows "submit e s =
     ok (closeModal e (setEvent (video_id video)
           (convertFBLiveVideoToEvent (dateParse e)
              (withDestination video (fb_destinationType opts) (getDestinationId e opts)))
           (showLoader s)))"
  using assms
  by (simp add: submit_def isUpdateMode_def showLoader_def saveNewStream_def settingsFor_def)

text \<open>
  Update mode on YouTube: when the platform returns the broadcast under the selected id and
  the list holds an event of that id, first at index \<open>n\<close>, that entry is replaced by the
  normalized broadcast and the list keeps its length.
\<close>

lemma submit_update_replaces_youtube:
  assumes "formValid e" "selectedEventId s \<noteq> []" "selectedPlatform s = Youtube"
    "ps_youtube (platformSettings s) = Some opts"
    "updateBroadcast e (selectedEventId s) opts = Fulfilled video"
    "broadcast_id video = selectedEventId s"
    "n < length (events s)" "event_id (events s ! n) = selectedEventId s"
    "\<forall>m < n. event_id (events s ! m) \<noteq> selectedEventId s"
  shows "events (st (submit e s)) = (events s)[n := convertYTBroadcastToEvent (dateParse e) video]
    \<and> length (events (st (submit e s))) = length (events s)
    \<and> event_id (events (st (submit e s)) ! n) = selectedEventId s"
proof -
  have "events (st (submit e s)) =
      events (setEvent (selectedEventId s) (convertYTBroadcastToEvent (dateParse e) video)
                (showLoader s))"
    using submit_update_youtube [OF assms(1-5)] assms(6) by (simp add: ok_def)
  also have "\<dots> = (events s)[n := convertYTBroadcastToEvent (dateParse e) video]"
    using setEvent_present [of n "showLoader s" "selectedEventId s"] assms(7-9) by simp
  finally show ?thesis using assms(6,7) by (simp add: convertYTBroadcastToEvent_def)
qed

text \<open>The same on Facebook, where the destination of the old event goes into the new one.\<close>

lemma submit_update_replaces_facebook:
  assumes "formValid e" "selectedEventId s \<noteq> []" "selectedPlatform s = Facebook"
    "ps_facebook (platformSettings s) = Some opts"
    "selectedEvent s = Some event" "facebook event = Some fbOptions"
    "updateLiveVideo e (selectedEventId s) opts = Fulfilled video"
    "video_id video = selectedEventId s"
    "n < length (events s)" "event_id (events s ! n) = selectedEventId s"
    "\<forall>m < n. event_id (events s ! m) \<noteq> selectedEventId s"
  shows "events (st (submit e s)) =
      (events s)[n := convertFBLiveVideoToEvent (dateParse e)
         (withDestination video (destinationType fbOptions) (destinationId fbOptions))]
    \<and> length (events (st (submit e s))) = length (events s)
    \<and> event_id (events (st (submit e s)) ! n) = selectedEventId s"
proof -
  let ?ev = "convertFBLiveVideoToEvent (dateParse e)
         (withDestination video (destinationType fbOptions) (destinationId fbOptions))"
  have "events (st (submit e s)) = events (setEvent (selectedEventId s) ?ev (showLoader s))"
    using submit_update_facebook [OF assms(1-7)] assms(8) by (simp add: ok_def)
  also have "\<dots> = (events s)[n := ?ev]"
    using setEvent_present [of n "showLoader s" "selectedEventId s"] assms(9-11) by simp
  finally show ?thesis
    using assms(8,9) by (simp add: convertFBLiveVideoToEvent_def withDestination_def)
qed

text \<open>
  Create mode on YouTube: the id the platform assigned is not in the list, \<open>findIndex\<close>
  returns -1, and \<open>splice(-1, 1, event)\<close> puts the new event in the place of the last one.
  Only an empty list grows.
\<close>

lemma submit_create_youtube_events:
  assumes "formValid e" "selectedEventId s = []" "selectedPlatform s = Youtube"
    "ps_youtube (platformSettings s) = Some opts"
    "scheduleStreamYT e (time s) opts = Fulfilled video"
    "\<forall>x \<in> set (events s). event_id x \<noteq> broadcast_id video"
  shows "events (st (submit e s)) =
     (if events s = [] then [convertYTBroadcastToEvent (dateParse e) video]
      else butlast (events s) @ [convertYTBroadcastToEvent (dateParse e) video])"
  using submit_create_youtube [OF assms(1-5)]
    setEvent_absent [of "showLoader s" "broadcast_id video"] assms(6)
  by (simp add: ok_def)

text \<open>
  Claim C1. After a successful \<open>submit\<close> in create mode the list of events should be one
  longer and hold the new event under the id the platform returned. The code does not do
  that: with one event \<open>old1\<close> in the list and a form in create mode, the platform
  schedules the broadcast \<open>new1\<close>, and \<open>submit\<close> leaves a list of length one in which
  \<open>new1\<close> has taken the place of \<open>old1\<close>. The mutation \<open>addEvent\<close>, which appends, is
  never called.
\<close>

theorem submit_create_overwrites_last:
  "formValid createEnv
   \<and> selectedEventId createState = []
   \<and> events createState = [ytEvent ''old1'']
   \<and> scheduleStreamYT createEnv (time createState) (ytDefaults\<lparr>broadcastId := Some []\<rparr>)
       = Fulfilled (launchBroadcast ''new1'')
   \<and> events (st (submit createEnv createState)) = [ytEvent ''new1'']
   \<and> length (events (st (submit createEnv createState))) = length (events createState)
   \<and> events (addEvent (ytEvent ''new1'') createState) = [ytEvent ''old1'', ytEvent ''new1'']"
  by (simp add: createEnv_def createState_def cmd_defs sample_defs addEvent_def)

section \<open>Failures of the platform calls made by submit\<close>

text \<open>
  The Facebook update and both create calls are inside a \<open>try\<close>: a rejection becomes a
  toast, the loader is hidden and nothing else changes, so the modal stays as it was.
\<close>

lemma submit_failure_handled_facebook_update:
  assumes "formValid e" "selectedEventId s \<noteq> []" "selectedPlatform s = Facebook"
    "ps_facebook (platformSettings s) = Some opts"
    "selectedEvent s = Some event" "facebook event = Some fbOptions"
    "updateLiveVideo e (selectedEventId s) opts = Rejected err"
  shows "submit e s =
     \<lparr>st = s\<lparr>isLoading := False\<rparr>, toasts = [msgFacebookWindow], unhandled = False\<rparr>"
  using assms
  by (simp add: submit_def isUpdateMode_def showLoader_def saveExistingStream_def settingsFor_def
      selectedEvent_def handleError_def hideLoader_def)

lemma submit_failure_handled_create:
  assumes "formValid e" "selectedEventId s = []"
    "selectedPlatform s = Youtube \<and> (\<exists>opts. ps_youtube (platformSettings s) = Some opts
        \<and> scheduleStreamYT e (time s) opts = Rejected err)
     \<or> selectedPlatform s = Facebook \<and> (\<exists>opts. ps_facebook (platformSettings s) = Some opts
        \<and> scheduleStreamFB e (time s) opts = Rejected err)"
  shows "submit e s =
     \<lparr>st = s\<lparr>isLoading := False\<rparr>,
      toasts = [if selectedPlatform s = Facebook then msgFacebookWindow else msgCannotSchedule],
      unhandled = False\<rparr>"
  using assms
  by (auto simp: submit_def isUpdateMode_def showLoader_def saveNewStream_def settingsFor_def
      handleError_def hideLoader_def)

text \<open>
  The YouTube update is not inside a \<open>try\<close>: a rejection of \<open>updateBroadcast\<close> ends
  \<open>saveExistingStream\<close>, whose promise nobody awaits. No toast is shown and the loader
  stays on.
\<close>

lemma submit_failure_unhandled_youtube_update:
  assumes "formValid e" "selectedEventId s \<noteq> []" "selectedPlatform s = Youtube"
    "ps_youtube (platformSettings s) = Some opts"
    "updateBroadcast e (selectedEventId s) opts = Rejected err"
  shows "submit e s = \<lparr>st = s\<lparr>isLoading := True\<rparr>, toasts = [], unhandled = True\<rparr>"
  using assms
  by (simp add: submit_def isUpdateMode_def showLoader_def saveExistingStream_def settingsFor_def
      threw_def)

text \<open>
  Claim C2. Every failure of an update or create call made by \<open>submit\<close> should become a
  toast, clear the loading flag and never be left unhandled, on the YouTube branch as on
  the Facebook branch. The code does not do that for the YouTube update: editing the
  YouTube event \<open>yt1\<close> while \<open>updateBroadcast\<close> rejects shows no toast, leaves
  \<open>isLoading\<close> true and leaves the rejection unhandled.
\<close>

theorem submit_youtube_update_failure_unhandled:
  "formValid rejectEnv
   \<and> selectedPlatform editState = Youtube
   \<and> selectedEventId editState = ''yt1''
   \<and> updateBroadcast rejectEnv ''yt1'' (ytDefaults\<lparr>broadcastId := Some []\<rparr>)
       = Rejected (StreamError ''quotaExceeded'')
   \<and> submit rejectEnv editState
       = \<lparr>st = editState\<lparr>isLoading := True\<rparr>, toasts = [], unhandled = True\<rparr>"
  by (simp add: rejectEnv_def editState_def cmd_defs sample_defs)

section \<open>The key of lookup, replacement and removal\<close>

text \<open>
  Claim C3, as stated, fails: the platform is never compared. In a list that holds a
  Facebook event and a YouTube event of the same id \<open>x\<close>, the lookup made while the
  selected platform is youtube returns the Facebook event, replacing by id overwrites the
  Facebook event, and removing by id removes both.
\<close>

theorem id_collision_counterexample:
  "event_id (fbEvent ''x'') = event_id (ytEvent ''x'')
   \<and> platform (fbEvent ''x'') \<noteq> platform (ytEvent ''x'')
   \<and> selectedPlatform collideState = Youtube
   \<and> selectedEvent collideState = Some (fbEvent ''x'')
   \<and> events (setEvent ''x'' ((ytEvent ''x'')\<lparr>title := ''Renamed''\<rparr>) collideState)
       = [(ytEvent ''x'')\<lparr>title := ''Renamed''\<rparr>, ytEvent ''x'']
   \<and> events (REMOVE_EVENT ''x'' collideState) = []"
  by (simp add: collideState_def sample_defs selectedEvent_def setEvent_def splice1_def
      REMOVE_EVENT_def)

text \<open>
  Claim C3, amended. The id alone is the key; the platform is never compared. For every
  state in which an event of id \<open>i\<close> is present, first at index \<open>n\<close>: the lookup under
  \<open>selectedEventId = i\<close> returns the event at \<open>n\<close>, \<open>setEvent\<close> called with \<open>i\<close> replaces
  the event at \<open>n\<close> and no other, and \<open>REMOVE_EVENT\<close> called with \<open>i\<close> removes every
  event of id \<open>i\<close> and no other. When, moreover, no two events of the list share an id,
  removing by id is removing by the pair of id and platform. Nothing is said here of
  \<open>setEvent\<close> called with an id that no event of the list has.
\<close>

theorem id_is_the_lookup_key:
  assumes "n < length (events s)" "event_id (events s ! n) = i"
    "\<forall>m < n. event_id (events s ! m) \<noteq> i"
  shows "selectedEvent (s\<lparr>selectedEventId := i\<rparr>) = Some (events s ! n)
    \<and> events (setEvent i ev s) = (events s)[n := ev]
    \<and> events (REMOVE_EVENT i s) = filter (\<lambda>x. event_id x \<noteq> i) (events s)
    \<and> (distinct (map event_id (events s)) \<longrightarrow>
         events (REMOVE_EVENT i s) =
           filter (\<lambda>x. \<not> (event_id x = i \<and> platform x = platform (events s ! n))) (events s))"
proof -
  have sel: "selectedEvent (s\<lparr>selectedEventId := i\<rparr>) = Some (events s ! n)"
  proof -
    have "\<exists>k < length (events s). i = event_id (events s ! k) \<and> events s ! n = events s ! k
        \<and> (\<forall>j < k. i \<noteq> event_id (events s ! j))"
      using assms by (intro exI [of _ n]) auto
    then show ?thesis by (simp add: selectedEvent_def find_Some_iff)
  qed
  have upd: "events (setEvent i ev s) = (events s)[n := ev]"
    using assms by (rule setEvent_present)
  have rem: "events (REMOVE_EVENT i s) = filter (\<lambda>x. event_id x \<noteq> i) (events s)"
    by (simp add: REMOVE_EVENT_def)
  have key: "filter (\<lambda>x. event_id x \<noteq> i) (events s) =
      filter (\<lambda>x. \<not> (event_id x = i \<and> platform x = platform (events s ! n))) (events s)"
    if d: "distinct (map event_id (events s))"
  proof (rule filter_cong [OF refl])
    fix x assume x: "x \<in> set (events s)"
    have inj: "inj_on event_id (set (events s))" using d by (simp add: distinct_map)
    have "x = events s ! n" if "event_id x = i"
      using inj x that assms(1,2) by (auto simp: inj_on_def)
    then show "(event_id x \<noteq> i) = (\<not> (event_id x = i \<and> platform x = platform (events s ! n)))"
      by auto
  qed
  show ?thesis using sel upd rem key by simp
qed

theorem id_is_the_lookup_key_witness:
  "0 < length (events removeState) \<and> event_id (events removeState ! 0) = ''x''
   \<and> distinct (map event_id (events removeState))
   \<and> selectedEvent (removeState\<lparr>selectedEventId := ''x''\<rparr>) = Some (fbEvent ''x'')
   \<and> events (setEvent ''x'' (fbEvent ''z'') removeState) = [fbEvent ''z'', ytEvent ''y'']
   \<and> events (REMOVE_EVENT ''x'' removeState) = [ytEvent ''y'']"
  using id_is_the_lookup_key [of 0 removeState "''x''" "fbEvent ''z''"]
  by (simp add: removeState_def sample_defs)

section \<open>Loading the events of both platforms\<close>

text \<open>
  Claim C4. When the YouTube load returns \<open>m\<close> native broadcasts and the Facebook load
  returns \<open>n\<close> native videos, \<open>loadEvents\<close> leaves a list of exactly \<open>m + n\<close> events: the
  normalized YouTube broadcasts in their order, each of platform youtube, followed by the
  normalized Facebook videos in their order, each of platform facebook; and
  \<open>isEventsLoaded\<close> is true, also when both lists are empty.
\<close>

theorem loadEvents_combines:
  assumes "loadYTBEvents e = Fulfilled ytEvents" "loadFbEvents e = Fulfilled fbEvents"
  shows "events (st (loadEvents e s)) =
           map (convertYTBroadcastToEvent (dateParse e)) ytEvents
           @ map (convertFBLiveVideoToEvent (dateParse e)) fbEvents
    \<and> length (events (st (loadEvents e s))) = length ytEvents + length fbEvents
    \<and> (\<forall>k < length ytEvents.
          platform (events (st (loadEvents e s)) ! k) = Youtube
          \<and> events (st (loadEvents e s)) ! k
              = convertYTBroadcastToEvent (dateParse e) (ytEvents ! k))
    \<and> (\<forall>k < length fbEvents.
          platform (events (st (loadEvents e s)) ! (length ytEvents + k)) = Facebook
          \<and> events (st (loadEvents e s)) ! (length ytEvents + k)
              = convertFBLiveVideoToEvent (dateParse e) (fbEvents ! k))
    \<and> isEventsLoaded (st (loadEvents e s))
    \<and> \<not> unhandled (loadEvents e s)"
proof -
  have ev: "st (loadEvents e s) =
      setEvents (map (convertYTBroadcastToEvent (dateParse e)) ytEvents
           @ map (convertFBLiveVideoToEvent (dateParse e)) fbEvents) (reset e s)"
    and un: "\<not> unhandled (loadEvents e s)"
    using assms by (simp_all add: loadEvents_def ok_def)
  have py: "platform (convertYTBroadcastToEvent p b) = Youtube" for p b
    by (simp add: convertYTBroadcastToEvent_def)
  have pf: "platform (convertFBLiveVideoToEvent p v) = Facebook" for p v
    by (simp add: convertFBLiveVideoToEvent_def)
  show ?thesis
    using un by (simp add: ev setEvents_def nth_append py pf)
qed

theorem loadEvents_combines_witness:
  "loadYTBEvents fiveEnv = Fulfilled [launchBroadcast ''a'', launchBroadcast ''b'']
   \<and> loadFbEvents fiveEnv = Fulfilled [withDestination (launchVideo ''c'') ''page'' ''p7'',
                                   withDestination (launchVideo ''d'') ''page'' ''p7'',
                                   withDestination (launchVideo ''e'') ''page'' ''p7'']
   \<and> events (st (loadEvents fiveEnv sampleState))
       = [ytEvent ''a'', ytEvent ''b'', fbEvent ''c'', fbEvent ''d'', fbEvent ''e'']
   \<and> length (events (st (loadEvents fiveEnv sampleState))) = 2 + 3
   \<and> loadYTBEvents sampleEnv = Fulfilled [] \<and> loadFbEvents sampleEnv = Fulfilled []
   \<and> events (st (loadEvents sampleEnv (sampleState\<lparr>isEventsLoaded := False\<rparr>))) = []
   \<and> isEventsLoaded (st (loadEvents sampleEnv (sampleState\<lparr>isEventsLoaded := False\<rparr>)))"
proof -
  have y: "loadYTBEvents fiveEnv = Fulfilled [launchBroadcast ''a'', launchBroadcast ''b'']"
    by (simp add: fiveEnv_def sampleEnv_def loadYTBEvents_def platforms_def)
  have f: "loadFbEvents fiveEnv = Fulfilled [withDestination (launchVideo ''c'') ''page'' ''p7'',
                                   withDestination (launchVideo ''d'') ''page'' ''p7'',
                                   withDestination (launchVideo ''e'') ''page'' ''p7'']"
    by (simp add: fiveEnv_def sampleEnv_def loadFbEvents_def platforms_def)
  have y0: "loadYTBEvents sampleEnv = Fulfilled []"
    by (simp add: sampleEnv_def loadYTBEvents_def platforms_def)
  have f0: "loadFbEvents sampleEnv = Fulfilled []"
    by (simp add: sampleEnv_def loadFbEvents_def platforms_def)
  have p: "dateParse fiveEnv = parseLaunch" by (simp add: fiveEnv_def sampleEnv_def)
  show ?thesis
    using loadEvents_combines [OF y f, of sampleState]
      loadEvents_combines [OF y0 f0, of "sampleState\<lparr>isEventsLoaded := False\<rparr>"] y f y0 f0
    by (simp add: p convertYTBroadcastToEvent_def convertFBLiveVideoToEvent_def
        withDestination_def newDateValueOf_def or_str_def truthy_str_def
        launchBroadcast_def launchVideo_def ytEvent_def fbEvent_def parseLaunch_def)
qed

section \<open>Opening the modal for a new event\<close>

text \<open>The time that \<open>showNewEventModal\<close> works with.\<close>

lemma or_num_absent: "or_num None d = d"
  by (simp add: or_num_def)

lemma or_num_passed: "t \<noteq> 0 \<Longrightarrow> or_num (Some (Number t)) d = Number t"
  by (simp add: or_num_def truthy_num_def)

lemma or_num_falsy: "or_num (Some (Number 0)) d = d" "or_num (Some NaN) d = d"
  by (simp_all add: or_num_def truthy_num_def)

text \<open>
  Claim C5, as stated, fails: a passed time whose epoch value is 0 is falsy, so
  \<open>selectedTime?.valueOf() || this.state.time\<close> takes the stored draft time in its place.
  With a draft time later than the start of today, the call with the passed time 0
  (which is before today) opens the modal and selects the platform.
\<close>

theorem showNewEventModal_epoch_zero_counterexample:
  "js_lt (Number 0) (Number (startOfToday sampleEnv))
   \<and> \<not> isModalVisible (sampleState\<lparr>isModalVisible := False\<rparr>)
   \<and> isModalVisible (st (showNewEventModal sampleEnv Facebook (Some (Number 0))
                            (sampleState\<lparr>isModalVisible := False\<rparr>)))
   \<and> selectedPlatform (st (showNewEventModal sampleEnv Facebook (Some (Number 0))
                            (sampleState\<lparr>isModalVisible := False\<rparr>))) = Facebook
   \<and> selectedPlatform (sampleState\<lparr>isModalVisible := False\<rparr>) = Youtube
   \<and> toasts (showNewEventModal sampleEnv Facebook (Some (Number 0))
                (sampleState\<lparr>isModalVisible := False\<rparr>)) = []"
  by (simp add: showNewEventModal_def or_num_def truthy_num_def js_lt_def setTime_def Let_def
      ok_def sampleEnv_def sampleState_def defaultPlatformSettings_def fbDefaults_def)

text \<open>
  Claim C5, amended. The requested time is the passed time when one is passed and its
  value is neither 0 nor \<open>NaN\<close>, and the stored draft time otherwise. When the requested
  time is strictly before the start of today, \<open>showNewEventModal\<close> shows the past-date
  error and returns the state it was given: the modal is not opened and
  \<open>selectedPlatform\<close>, \<open>time\<close>, \<open>platformSettings\<close> and \<open>events\<close> are as before.
\<close>

theorem showNewEventModal_rejects_past:
  assumes "js_lt (or_num selectedTime (time s)) (Number (startOfToday e))"
  shows "showNewEventModal e p selectedTime s
           = \<lparr>st = s, toasts = [msgPastDate], unhandled = False\<rparr>"
  using assms by (simp add: showNewEventModal_def Let_def)

theorem showNewEventModal_rejects_past_witness:
  "js_lt (or_num (Some (Number 1704103200000)) (time sampleState))
         (Number (startOfToday sampleEnv))
   \<and> showNewEventModal sampleEnv Facebook (Some (Number 1704103200000)) sampleState
     = \<lparr>st = sampleState, toasts = [msgPastDate], unhandled = False\<rparr>"
proof -
  have h: "js_lt (or_num (Some (Number 1704103200000)) (time sampleState))
             (Number (startOfToday sampleEnv))"
    by (simp add: or_num_def truthy_num_def js_lt_def sampleEnv_def)
  show ?thesis using h showNewEventModal_rejects_past [OF h, of Facebook] by simp
qed

section \<open>Removing an event\<close>

text \<open>
  The events that the normalizers produce are YouTube events or Facebook events with their
  \<open>facebook\<close> sub-record; these are the events of the list.
\<close>

lemma normalized_event_shape:
  "platform (convertYTBroadcastToEvent parse b) = Youtube"
  "platform (convertFBLiveVideoToEvent parse v) = Facebook
   \<and> facebook (convertFBLiveVideoToEvent parse v) \<noteq> None"
  by (simp_all add: convertYTBroadcastToEvent_def convertFBLiveVideoToEvent_def)

text \<open>
  Claim C8. In every state in which an event of id \<open>selectedEventId\<close> is present,
  \<open>remove\<close> removes the events of that id from the list and closes the modal, whatever
  the promises of the remote delete calls are: pending, fulfilled or rejected. The states
  are those of the module: the selected platform is the platform of the selected event,
  since \<open>SHOW_EDIT_EVENT_MODAL\<close> writes \<open>selectedEventId\<close> and \<open>selectedPlatform\<close> together
  from one event, and the selected event is a YouTube event or a Facebook event with its
  \<open>facebook\<close> sub-record, as the normalizers produce them.
\<close>

theorem remove_local_regardless_of_remote:
  assumes "selectedEvent s = Some ev" "selectedPlatform s = platform ev"
    "platform ev = Youtube \<or> platform ev = Facebook \<and> facebook ev \<noteq> None"
  shows "st (remove_cmd (e\<lparr>removeBroadcast := rb, removeLiveVideo := rl\<rparr>) s)
           = closeModal e (REMOVE_EVENT (selectedEventId s) (showLoader s))
    \<and> events (st (remove_cmd (e\<lparr>removeBroadcast := rb, removeLiveVideo := rl\<rparr>) s))
           = filter (\<lambda>x. event_id x \<noteq> selectedEventId s) (events s)
    \<and> ev \<notin> set (events (st (remove_cmd (e\<lparr>removeBroadcast := rb, removeLiveVideo := rl\<rparr>) s)))
    \<and> \<not> isModalVisible (st (remove_cmd (e\<lparr>removeBroadcast := rb, removeLiveVideo := rl\<rparr>) s))"
proof -
  have guard: "selectedPlatform s = Youtube \<or> facebook ev \<noteq> None"
    using assms(2,3) by auto
  have sel: "selectedEvent (showLoader s) = Some ev"
    using assms(1) by (simp add: selectedEvent_def showLoader_def)
  have idev: "event_id ev = selectedEventId s"
    using assms(1) by (auto simp: selectedEvent_def find_Some_iff)
  have "st (remove_cmd (e\<lparr>removeBroadcast := rb, removeLiveVideo := rl\<rparr>) s)
           = closeModal e (REMOVE_EVENT (selectedEventId s) (showLoader s))"
    using guard sel by (auto simp: remove_cmd_def Let_def removeLocally_def)
  then show ?thesis
    using idev by (simp add: closeModal_def REMOVE_EVENT_def showLoader_def)
qed

theorem remove_local_regardless_of_remote_witness:
  "selectedEvent removeState = Some (fbEvent ''x'')
   \<and> selectedPlatform removeState = platform (fbEvent ''x'')
   \<and> platform (fbEvent ''x'') = Facebook \<and> facebook (fbEvent ''x'') \<noteq> None
   \<and> events (st (remove_cmd
        (sampleEnv\<lparr>removeBroadcast := \<lambda>i. Pending,
                   removeLiveVideo := \<lambda>i d. Rejected (StreamError ''gone'')\<rparr>) removeState))
       = [ytEvent ''y'']
   \<and> \<not> isModalVisible (st (remove_cmd
        (sampleEnv\<lparr>removeBroadcast := \<lambda>i. Pending,
                   removeLiveVideo := \<lambda>i d. Rejected (StreamError ''gone'')\<rparr>) removeState))
   \<and> selectedEvent editState = Some (ytEvent ''yt1'')
   \<and> selectedPlatform editState = platform (ytEvent ''yt1'')
   \<and> platform (ytEvent ''yt1'') = Youtube
   \<and> events (st (remove_cmd
        (sampleEnv\<lparr>removeBroadcast := \<lambda>i. Rejected (StreamError ''gone''),
                   removeLiveVideo := \<lambda>i d. Pending\<rparr>) editState))
       = []
   \<and> \<not> isModalVisible (st (remove_cmd
        (sampleEnv\<lparr>removeBroadcast := \<lambda>i. Rejected (StreamError ''gone''),
                   removeLiveVideo := \<lambda>i d. Pending\<rparr>) editState))"
proof -
  have h1: "selectedEvent removeState = Some (fbEvent ''x'')"
    by (simp add: removeState_def sample_defs selectedEvent_def)
  have h2: "selectedPlatform removeState = platform (fbEvent ''x'')"
    by (simp add: removeState_def fbEvent_def)
  have h3: "platform (fbEvent ''x'') = Facebook" "facebook (fbEvent ''x'') \<noteq> None"
    by (simp_all add: fbEvent_def)
  have h4: "platform (fbEvent ''x'') = Youtube
      \<or> platform (fbEvent ''x'') = Facebook \<and> facebook (fbEvent ''x'') \<noteq> None"
    using h3 by simp
  have fl: "filter (\<lambda>x. event_id x \<noteq> selectedEventId removeState) (events removeState)
      = [ytEvent ''y'']"
    by (simp add: removeState_def sample_defs)
  note r = remove_local_regardless_of_remote [OF h1 h2 h4, where e = sampleEnv
        and rb = "\<lambda>i. Pending" and rl = "\<lambda>i d. Rejected (StreamError ''gone'')"]
  from r have a: "events (st (remove_cmd
        (sampleEnv\<lparr>removeBroadcast := \<lambda>i. Pending,
                   removeLiveVideo := \<lambda>i d. Rejected (StreamError ''gone'')\<rparr>) removeState))
       = [ytEvent ''y'']"
    unfolding fl by (rule conjunct1 [OF conjunct2])
  from r have b: "\<not> isModalVisible (st (remove_cmd
        (sampleEnv\<lparr>removeBroadcast := \<lambda>i. Pending,
                   removeLiveVideo := \<lambda>i d. Rejected (StreamError ''gone'')\<rparr>) removeState))"
    by (rule conjunct2 [OF conjunct2 [OF conjunct2]])
  have k1: "selectedEvent editState = Some (ytEvent ''yt1'')"
    by (simp add: editState_def sample_defs selectedEvent_def)
  have k2: "selectedPlatform editState = platform (ytEvent ''yt1'')"
    by (simp add: editState_def sampleState_def ytEvent_def)
  have k3: "platform (ytEvent ''yt1'') = Youtube"
    by (simp add: ytEvent_def)
  have k4: "platform (ytEvent ''yt1'') = Youtube
      \<or> platform (ytEvent ''yt1'') = Facebook \<and> facebook (ytEvent ''yt1'') \<noteq> None"
    using k3 by simp
  have kl: "filter (\<lambda>x. event_id x \<noteq> selectedEventId editState) (events editState) = []"
    by (simp add: editState_def sample_defs)
  note q = remove_local_regardless_of_remote [OF k1 k2 k4, where e = sampleEnv
        and rb = "\<lambda>i. Rejected (StreamError ''gone'')" and rl = "\<lambda>i d. Pending"]
  from q have c: "events (st (remove_cmd
        (sampleEnv\<lparr>removeBroadcast := \<lambda>i. Rejected (StreamError ''gone''),
                   removeLiveVideo := \<lambda>i d. Pending\<rparr>) editState))
       = []"
    unfolding kl by (rule conjunct1 [OF conjunct2])
  from q have d: "\<not> isModalVisible (st (remove_cmd
        (sampleEnv\<lparr>removeBroadcast := \<lambda>i. Rejected (StreamError ''gone''),
                   removeLiveVideo := \<lambda>i d. Pending\<rparr>) editState))"
    by (rule conjunct2 [OF conjunct2 [OF conjunct2]])
  from h1 h2 h3 a b k1 k2 k3 c d show ?thesis by (intro conjI)
qed

text \<open>
  Claim C10. Whatever the state and the selected id, after \<open>remove\<close> the events whose id
  differs from \<open>selectedEventId\<close> are the same events, with the same fields and in the
  same order, as before: the list is either untouched or the old list without the events
  of the selected id.
\<close>

theorem remove_keeps_other_events:
  "filter (\<lambda>x. event_id x \<noteq> selectedEventId s) (events (st (remove_cmd e s)))
     = filter (\<lambda>x. event_id x \<noteq> selectedEventId s) (events s)
   \<and> (events (st (remove_cmd e s)) = events s
       \<or> events (st (remove_cmd e s))
           = filter (\<lambda>x. event_id x \<noteq> selectedEventId s) (events s))"
  by (auto simp: remove_cmd_def Let_def removeLocally_def closeModal_def REMOVE_EVENT_def
      showLoader_def threw_def split: option.splits)

theorem remove_keeps_other_events_witness:
  "filter (\<lambda>x. event_id x \<noteq> ''x'') (events (st (remove_cmd sampleEnv removeState)))
     = [ytEvent ''y'']
   \<and> filter (\<lambda>x. event_id x \<noteq> ''x'') (events removeState) = [ytEvent ''y'']
   \<and> filter (\<lambda>x. event_id x \<noteq> ''x'') (events (st (remove_cmd sampleEnv mismatchState))) = []"
  using remove_keeps_other_events [of removeState sampleEnv]
    remove_keeps_other_events [of mismatchState sampleEnv]
  by (simp add: removeState_def mismatchState_def sample_defs)

section \<open>The events of a day cell\<close>

lemma set_insertSorted: "set (insertSorted le x xs) = insert x (set xs)"
  by (induction xs) auto

lemma set_sortBy: "set (sortBy le xs) = set xs"
  by (induction xs) (simp_all add: sortBy_def set_insertSorted)

text \<open>The cell lists the events whose time is strictly between the two bounds of the day.\<close>

lemma set_dateCellRender:
  "set (dateCellRender startOfDay endOfDay evs day) =
     {ev \<in> set evs. isBetween (date ev) (startOfDay day) (endOfDay day)}"
  by (simp add: dateCellRender_def set_sortBy)

lemma dateCellRender_excludes_bounds:
  assumes "date ev = Number (startOfDay day) \<or> date ev = Number (endOfDay day)"
  shows "ev \<notin> set (dateCellRender startOfDay endOfDay evs day)"
  using assms by (auto simp: set_dateCellRender isBetween_def)

lemma sorted_insertSorted:
  assumes "sorted_wrt byDate xs" "\<forall>y \<in> insert x (set xs). date y \<noteq> NaN"
  shows "sorted_wrt byDate (insertSorted byDate x xs)"
  using assms
proof (induction xs)
  case Nil
  then show ?case by simp
next
  case (Cons y ys)
  have tr: "byDate a y \<Longrightarrow> byDate y c \<Longrightarrow> byDate a c" for a c
    using Cons.prems(2) by (auto simp: byDate_def js_sub_def split: jsnum.splits)
  have tot: "\<not> byDate x y \<Longrightarrow> byDate y x"
    using Cons.prems(2) by (auto simp: byDate_def js_sub_def split: jsnum.splits)
  show ?case
  proof (cases "byDate x y")
    case True
    then show ?thesis using Cons.prems(1) tr by auto
  next
    case False
    then show ?thesis
      using Cons tot by (auto simp: set_insertSorted)
  qed
qed

lemma sorted_sortBy:
  "\<forall>y \<in> set xs. date y \<noteq> NaN \<Longrightarrow> sorted_wrt byDate (sortBy byDate xs)"
proof (induction xs)
  case Nil
  then show ?case by (simp add: sortBy_def)
next
  case (Cons x xs)
  then have "sorted_wrt byDate (sortBy byDate xs)" by simp
  then have "sorted_wrt byDate (insertSorted byDate x (sortBy byDate xs))"
    using Cons.prems by (intro sorted_insertSorted) (auto simp: set_sortBy)
  then show ?case by (simp add: sortBy_def)
qed

text \<open>The events of a cell are in ascending order of time.\<close>

lemma sorted_dateCellRender:
  "sorted_wrt byDate (dateCellRender startOfDay endOfDay evs day)"
  unfolding dateCellRender_def
  by (rule sorted_sortBy) (auto simp: isBetween_def)

text \<open>
  Claim C9. The cell of a day should list every event of that day, the events at exactly
  the start and at exactly the end of the day included. The code does not do that:
  \<open>isBetween\<close> excludes both bounds. On a machine in UTC, for the day of
  2024-01-01T10:00:00Z, the event at 00:00:00.000 and the event at 23:59:59.999 of that
  day are left out of the cell, which lists only the event at 10:00; the cells of the day
  before and of the day after do not list them either.
\<close>

theorem dateCellRender_drops_day_bounds:
  "startOfDayUTC 1704103200000 = 1704067200000
   \<and> endOfDayUTC 1704103200000 = 1704153599999
   \<and> date midnightEvent = Number (startOfDayUTC 1704103200000)
   \<and> date lastMsEvent = Number (endOfDayUTC 1704103200000)
   \<and> dateCellRender startOfDayUTC endOfDayUTC
        [lastMsEvent, ytEvent ''ten'', midnightEvent] 1704103200000 = [ytEvent ''ten'']
   \<and> dateCellRender startOfDayUTC endOfDayUTC [midnightEvent] (1704103200000 - 86400000) = []
   \<and> dateCellRender startOfDayUTC endOfDayUTC [lastMsEvent] (1704103200000 + 86400000) = []"
  by (simp add: dateCellRender_def startOfDayUTC_def endOfDayUTC_def isBetween_def sortBy_def
      midnightEvent_def lastMsEvent_def ytEvent_def fbEvent_def)

end
